theory Spec2Isabelle
  imports Main "HOL-Library.Multiset"
begin

section \<open>Data model\<close>

text \<open>
  The package \<open>rm\<close> of the device plugin (\<open>internal/rm/rm.go\<close>). A Go function that
  returns \<open>(value, error)\<close> is a function into \<open>error + value\<close>, with \<open>Inl\<close> the error.
\<close>

datatype error = InvalidRequest | Err string

text \<open>Go's \<open>err.Error()\<close>, as \<open>%v\<close> prints an error.\<close>

fun Error :: "error \<Rightarrow> string" where
  "Error InvalidRequest = ''InvalidRequest''"
| "Error (Err m) = m"

text \<open>
  Modelled from the spec: the field \<open>Health\<close> of a device, whose type is declared in a file
  of the package that is not among the sources. Section 3 of the specification gives it the
  two values Healthy and Unhealthy.
\<close>

datatype health = Healthy | Unhealthy

text \<open>
  Modelled from the spec: the types \<open>Device\<close> and \<open>Devices\<close> are declared in a file of
  the package that is not among the sources. Section 3 of the specification gives a device
  an \<open>ID\<close>, an \<open>Index\<close> (the hardware enumeration index, a pair for a partition; here
  any linearly ordered type) and a \<open>Health\<close>, and a pool is an ordered list of devices.
\<close>

record 'i Device =
  ID :: string
  Index :: 'i
  Health :: health

type_synonym 'i Devices = "'i Device list"

text \<open>
  The configuration \<open>spec.Config\<close> is declared in \<open>api/config/v1\<close>, not among the sources.
  \<open>rm.go\<close> reads \<open>*config.Flags.MigStrategy\<close> and \<open>*config.Flags.FailOnInitError\<close>
  (two pointers, \<open>None\<close> when nil) and calls \<open>config.Resources.AddGPUResource\<close> and
  \<open>config.Resources.AddMIGResource\<close>. The strategy is compared with the two constants
  \<open>spec.MigStrategySingle\<close> and \<open>spec.MigStrategyMixed\<close>; every other value is
  \<open>MigStrategyOther\<close>.
\<close>

datatype MigStrategy = MigStrategySingle | MigStrategyMixed | MigStrategyOther string

record Flags =
  MigStrategy :: "MigStrategy option"
  FailOnInitError :: "bool option"

text \<open>
  Modelled from the spec: \<open>Resources\<close> is declared in \<open>api/config/v1\<close>. Section 3 of the
  specification describes it as ordered matching rules (pattern, resource name); the two
  methods called by \<open>rm.go\<close> show one list of rules for whole GPUs and one for MIG
  partitions.
\<close>

record Resources =
  GPUs :: "(string \<times> string) list"
  MIGs :: "(string \<times> string) list"

record Config =
  Flags :: Flags
  Resources :: Resources

record 'i resourceManager =
  config :: "Config option"
  resource :: string
  devices :: "'i Devices"

section \<open>Accessors\<close>

definition Resource :: "'i resourceManager \<Rightarrow> string" where
  "Resource r = resource r"

definition Devices :: "'i resourceManager \<Rightarrow> 'i Devices" where
  "Devices r = devices r"

section \<open>Preferred allocation\<close>

text \<open>
  Modelled from the spec: \<open>getPreferredAllocation\<close> is a method of \<open>resourceManager\<close>
  written in another file of the package, not among the sources; the three definitions of
  this section follow section 4.3 of the specification. This one finds, for each
  identifier of a list, the device of the pool that carries it, and fails when the pool
  has none: \<open>available\<close> must not contain a device unknown to the pool of the manager.
\<close>

fun resolve :: "('i :: linorder) Devices \<Rightarrow> string list \<Rightarrow> 'i Devices option" where
  "resolve pool [] = Some []"
| "resolve pool (x # xs) =
     (case find (\<lambda>d. ID d = x) pool of
        None \<Rightarrow> None
      | Some d \<Rightarrow> (case resolve pool xs of None \<Rightarrow> None | Some ds \<Rightarrow> Some (d # ds)))"

text \<open>
  Modelled from the spec: the preference policy of \<open>getPreferredAllocation\<close>. The
  specification ranks by ascending index where no richer signal exists, and devices of
  equal rank keep the order they have in \<open>available\<close>: a stable sort by index.
\<close>

definition rank :: "('i :: linorder) Devices \<Rightarrow> 'i Devices" where
  "rank ds = sort_key Index ds"

text \<open>
  Modelled from the spec: the devices that remain once the required ones are set aside,
  \<open>available \ required\<close> in step 3 of section 4.3. A request holds lists: each
  identifier of \<open>required\<close> takes one entry of \<open>available\<close> away, the first that carries
  it. When no identifier is repeated these are the devices of \<open>available\<close> that are not in
  \<open>required\<close>, in the order of \<open>available\<close>.
\<close>

fun removeID :: "string \<Rightarrow> 'i Devices \<Rightarrow> 'i Devices" where
  "removeID x [] = []"
| "removeID x (d # ds) = (if ID d = x then ds else d # removeID x ds)"

fun remaining :: "'i Devices \<Rightarrow> string list \<Rightarrow> 'i Devices" where
  "remaining ds [] = ds"
| "remaining ds (x # xs) = remaining (removeID x ds) xs"

text \<open>
  Modelled from the spec: \<open>getPreferredAllocation\<close>, not among the sources. Section 4.3 of
  the specification gives its steps:
  \<^enum> validate the request: \<open>required\<close> is a subset of \<open>available\<close>, \<open>size\<close> lies in
    \<open>[len(required), len(available)]\<close>, and every device of \<open>available\<close> is known
    to the pool of the manager; otherwise fail with \<open>InvalidRequest\<close>;
  \<^enum> start the result with all of \<open>required\<close>;
  \<^enum> rank the remaining devices of \<open>available\<close> and append the top
    \<open>size - len(required)\<close> of them.

  The argument \<open>size\<close> is written \<open>sz\<close>: \<open>size\<close> is a constant of HOL.
\<close>

definition getPreferredAllocation ::
  "('i :: linorder) resourceManager \<Rightarrow> string list \<Rightarrow> string list \<Rightarrow> int \<Rightarrow> error + string list" where
  "getPreferredAllocation r available required sz =
     (if \<not> set required \<subseteq> set available then Inl InvalidRequest
      else if sz < int (length required) \<or> int (length available) < sz then Inl InvalidRequest
      else case resolve (Devices r) available of
        None \<Rightarrow> Inl InvalidRequest
      | Some ds \<Rightarrow>
          Inr (required @
               map ID (take (nat sz - length required) (rank (remaining ds required)))))"

text \<open>
  \<open>GetPreferredAllocation\<close> (\<open>rm.go\<close>, lines 106 to 108) hands its arguments to
  \<open>getPreferredAllocation\<close> and returns what it returns.
\<close>

definition GetPreferredAllocation ::
  "('i :: linorder) resourceManager \<Rightarrow> string list \<Rightarrow> string list \<Rightarrow> int \<Rightarrow> error + string list" where
  "GetPreferredAllocation r available required sz =
     getPreferredAllocation r available required sz"

text \<open>
  Modelled from the spec: what section 4.3 asks of a ranked list, however a call computes
  it: it holds the candidates, each as often as they are given, in ascending index, and
  devices of equal index stand in the order they have among the candidates (step 4: ties
  keep the order of \<open>available\<close>).
\<close>

definition ranking :: "('i :: linorder) Devices \<Rightarrow> 'i Devices \<Rightarrow> bool" where
  "ranking cands ys \<longleftrightarrow>
     mset ys = mset cands \<and> sorted (map Index ys) \<and>
     (\<forall>d \<in> set ys. filter (\<lambda>x. Index x = Index d) ys = filter (\<lambda>x. Index x = Index d) cands)"

text \<open>
  Modelled from the spec: the outcomes that section 4.3 permits for one call of
  \<open>GetPreferredAllocation\<close> on a manager, as a relation between the request and what the
  call returns. A call fails with \<open>InvalidRequest\<close> on a request that does not pass the
  validation; otherwise it returns \<open>required\<close> followed by the top of some ranking of the
  remaining devices. The relation does not say how a call finds the ranking: two calls may
  differ in the order in which they visit the devices and in whatever state they keep.
\<close>

inductive allocates ::
  "('i :: linorder) resourceManager \<Rightarrow> string list \<Rightarrow> string list \<Rightarrow> int \<Rightarrow> error + string list \<Rightarrow> bool" where
  reject:
    "\<not> set required \<subseteq> set available \<or> sz < int (length required) \<or> int (length available) < sz \<or>
     \<not> set available \<subseteq> ID ` set (Devices r) \<Longrightarrow>
     allocates r available required sz (Inl InvalidRequest)"
| choose:
    "set required \<subseteq> set available \<Longrightarrow> int (length required) \<le> sz \<Longrightarrow>
     sz \<le> int (length available) \<Longrightarrow> resolve (Devices r) available = Some ds \<Longrightarrow>
     ranking (remaining ds required) ys \<Longrightarrow>
     allocates r available required sz
       (Inr (required @ map ID (take (nat sz - length required) ys)))"

section \<open>The hardware collaborator\<close>

text \<open>
  NVML is an external library. \<open>nvml.Init()\<close> and \<open>nvml.Shutdown()\<close> return a code that
  the source compares with \<open>nvml.SUCCESS\<close>; \<open>nvml.ErrorString\<close> prints a code.
\<close>

datatype nvml_Return = SUCCESS | ERROR int

text \<open>
  What a call of a function of \<open>rm.go\<close> meets outside of it: the codes that \<open>nvml.Init()\<close>
  and \<open>nvml.Shutdown()\<close> return, \<open>nvml.ErrorString\<close>, the answer of \<open>nvinfo.HasNVML()\<close>,
  and the two helpers of the package that are written in other files:
  \<^item> \<open>buildDeviceMap(config)\<close> returns an error or a Go map from resource names to
    devices; the map is the list of its entries in the order in which the \<open>range\<close> loop
    of \<open>NewResourceManagers\<close> meets them;
  \<^item> \<open>walkMigProfiles(f)\<close> calls \<open>f\<close> on the MIG profiles \<open>MigProfiles\<close> in turn, stops
    at the first error of \<open>f\<close>, and otherwise returns \<open>WalkError\<close>.
\<close>

record 'i World =
  Init :: nvml_Return
  Shutdown :: nvml_Return
  ErrorString :: "nvml_Return \<Rightarrow> string"
  HasNVML :: "bool \<times> string"
  buildDeviceMap :: "Config option \<Rightarrow> error + (string \<times> 'i Devices) list"
  MigProfiles :: "string list"
  WalkError :: "error option"

text \<open>The calls a function makes to the collaborator and to the logger, in order.\<close>

datatype stream = Stderr | Stdout

datatype logarg = ArgString string | ArgMigStrategy MigStrategy

datatype event =
    NvmlInit nvml_Return
  | NvmlShutdown nvml_Return
  | ProbeNVML
  | CallBuildDeviceMap
  | CallWalkMigProfiles
  | LogSetOutput stream
  | LogPrintf string "logarg list"

text \<open>
  A call either returns or panics; the only panic of \<open>rm.go\<close> itself is the dereference
  of a nil pointer.
\<close>

datatype 'a outcome = Return 'a | Panic

text \<open>
  The deferred function of lines 62 to 67 and 131 to 136: it runs when the surrounding
  function returns, whatever the return statement.
\<close>

definition deferredShutdown :: "'i World \<Rightarrow> event list" where
  "deferredShutdown w =
     (let ret = Shutdown w in
      NvmlShutdown ret #
      (if ret \<noteq> SUCCESS
       then [LogPrintf ''Error shutting down NVML: %v'' [ArgString (ErrorString w ret)]]
       else []))"

text \<open>
  Whether the NVML handle is held after a sequence of calls, given whether it was held
  before: a successful \<open>nvml.Init()\<close> takes it, \<open>nvml.Shutdown()\<close> releases it.
\<close>

fun handleHeld :: "event list \<Rightarrow> bool \<Rightarrow> bool" where
  "handleHeld [] h = h"
| "handleHeld (NvmlInit ret # es) h = handleHeld es (if ret = SUCCESS then True else h)"
| "handleHeld (NvmlShutdown ret # es) h = handleHeld es False"
| "handleHeld (e # es) h = handleHeld es h"

section \<open>NewResourceManagers\<close>

text \<open>Lines 50 to 56: the messages printed when NVML cannot be initialized.\<close>

definition initFailureLog :: "string \<Rightarrow> event list" where
  "initFailureLog msg =
     [LogSetOutput Stderr,
      LogPrintf ''Failed to initialize NVML: %v.'' [ArgString msg],
      LogPrintf ''If this is a GPU node, did you set the docker default runtime to `nvidia`?'' [],
      LogPrintf ''You can check the prerequisites at: https://github.com/NVIDIA/k8s-device-plugin#prerequisites'' [],
      LogPrintf ''You can learn how to set the runtime at: https://github.com/NVIDIA/k8s-device-plugin#quick-start'' [],
      LogPrintf ''If this is not a GPU node, you should set up a toleration or nodeSelector to only deploy this plugin on GPU nodes'' [],
      LogSetOutput Stdout]"

text \<open>
  Lines 74 to 84: the loop over the device map. A manager is appended only when its device
  list is not empty.
\<close>

fun rangeDeviceMap ::
  "Config option \<Rightarrow> (string \<times> 'i Devices) list \<Rightarrow> 'i resourceManager list \<Rightarrow> 'i resourceManager list" where
  "rangeDeviceMap cfg [] rms = rms"
| "rangeDeviceMap cfg ((resourceName, devs) # rest) rms =
     (let r = \<lparr>config = cfg, resource = resourceName, devices = devs\<rparr>
      in rangeDeviceMap cfg rest (if length (Devices r) \<noteq> 0 then rms @ [r] else rms))"

text \<open>
  Lines 47 to 87. The result is the sequence of calls made and what the function returns;
  \<open>nil\<close> and the empty slice are both \<open>[]\<close>.
\<close>

definition NewResourceManagers ::
  "'i World \<Rightarrow> Config option \<Rightarrow> event list \<times> (error + 'i resourceManager list) outcome" where
  "NewResourceManagers w cfg =
     (let ret = Init w in
      if ret \<noteq> SUCCESS then
        (NvmlInit ret # initFailureLog (ErrorString w ret),
         (case cfg of
            None \<Rightarrow> Panic
          | Some c \<Rightarrow>
              (case FailOnInitError (Flags c) of
                 None \<Rightarrow> Panic
               | Some b \<Rightarrow>
                   if b then Return (Inl (Err (''failed to initialize NVML: '' @ ErrorString w ret)))
                   else Return (Inr []))))
      else
        (case buildDeviceMap w cfg of
           Inl err \<Rightarrow>
             ([NvmlInit ret, CallBuildDeviceMap] @ deferredShutdown w,
              Return (Inl (Err (''error building device map: '' @ Error err))))
         | Inr deviceMap \<Rightarrow>
             ([NvmlInit ret, CallBuildDeviceMap] @ deferredShutdown w,
              Return (Inr (rangeDeviceMap cfg deviceMap [])))))"

section \<open>AddDefaultResourcesToConfig\<close>

text \<open>
  Modelled from the spec: \<open>AddGPUResource\<close> and \<open>AddMIGResource\<close> are methods of
  \<open>Resources\<close>, declared in \<open>api/config/v1\<close>. They return an \<open>error\<close>. The rules are
  ordered (section 3 of the specification), so a rule is added at the end of its list; the
  specification describes no failure of adding a rule.
\<close>

definition AddGPUResource :: "string \<Rightarrow> string \<Rightarrow> Resources \<Rightarrow> Resources \<times> error option" where
  "AddGPUResource pattern name rs = (rs\<lparr>GPUs := GPUs rs @ [(pattern, name)]\<rparr>, None)"

definition AddMIGResource :: "string \<Rightarrow> string \<Rightarrow> Resources \<Rightarrow> Resources \<times> error option" where
  "AddMIGResource pattern name rs = (rs\<lparr>MIGs := MIGs rs @ [(pattern, name)]\<rparr>, None)"

text \<open>\<open>walkMigProfiles(f)\<close> on the profiles of the environment.\<close>

fun walkProfiles ::
  "(string \<Rightarrow> Resources \<Rightarrow> Resources \<times> error option) \<Rightarrow> string list \<Rightarrow> error option \<Rightarrow>
   Resources \<Rightarrow> Resources \<times> error option" where
  "walkProfiles f [] e rs = (rs, e)"
| "walkProfiles f (p # ps) e rs =
     (case f p rs of
        (rs', Some err) \<Rightarrow> (rs', Some err)
      | (rs', None) \<Rightarrow> walkProfiles f ps e rs')"

definition walkMigProfiles ::
  "'i World \<Rightarrow> (string \<Rightarrow> Resources \<Rightarrow> Resources \<times> error option) \<Rightarrow> Resources \<Rightarrow>
   Resources \<times> error option" where
  "walkMigProfiles w f rs = walkProfiles f (MigProfiles w) (WalkError w) rs"

text \<open>
  Lines 111 to 143. The function changes \<open>config.Resources\<close> through the pointer
  \<open>config\<close>: the result is the sequence of calls made, the configuration afterwards, and
  the error returned (\<open>None\<close> for \<open>nil\<close>).
\<close>

definition AddDefaultResourcesToConfig ::
  "'i World \<Rightarrow> Config option \<Rightarrow> event list \<times> Config option \<times> error option outcome" where
  "AddDefaultResourcesToConfig w cfg =
     (case cfg of
        None \<Rightarrow> ([], None, Panic)
      | Some c0 \<Rightarrow>
          (let c1 = c0\<lparr>Resources := fst (AddGPUResource ''*'' ''gpu'' (Resources c0))\<rparr> in
           case MigStrategy (Flags c1) of
             None \<Rightarrow> ([], Some c1, Panic)
           | Some MigStrategySingle \<Rightarrow>
               (let (rs, err) = AddMIGResource ''*'' ''gpu'' (Resources c1)
                in ([], Some (c1\<lparr>Resources := rs\<rparr>), Return err))
           | Some MigStrategyMixed \<Rightarrow>
               (let (hasNVML, reason) = HasNVML w in
                if \<not> hasNVML then
                  ([ProbeNVML,
                    LogPrintf ''WARNING: mig-strategy=%q is only supported with NVML''
                      [ArgMigStrategy MigStrategyMixed],
                    LogPrintf ''NVML not detected: %v'' [ArgString reason]],
                   Some c1, Return None)
                else
                  (let ret = Init w in
                   if ret \<noteq> SUCCESS then
                     ([ProbeNVML, NvmlInit ret], Some c1,
                      (case FailOnInitError (Flags c1) of
                         None \<Rightarrow> Panic
                       | Some b \<Rightarrow>
                           if b then Return (Some (Err (''failed to initialize NVML: '' @ ErrorString w ret)))
                           else Return None))
                   else
                     (let (rs, err) =
                        walkMigProfiles w (\<lambda>migProfile. AddMIGResource migProfile (''mig-'' @ migProfile))
                          (Resources c1)
                      in ([ProbeNVML, NvmlInit ret, CallWalkMigProfiles] @ deferredShutdown w,
                          Some (c1\<lparr>Resources := rs\<rparr>), Return err))))
           | Some (MigStrategyOther v) \<Rightarrow> ([], Some c1, Return None)))"

section \<open>Example inputs\<close>

text \<open>The pool of the example of the specification: four devices in ascending index.\<close>

definition examplePool :: "nat resourceManager" where
  "examplePool =
     \<lparr>config = None, resource = ''gpu'',
      devices = [\<lparr>ID = ''A'', Index = 0, Health = Healthy\<rparr>,
                 \<lparr>ID = ''B'', Index = 1, Health = Healthy\<rparr>,
                 \<lparr>ID = ''C'', Index = 2, Health = Healthy\<rparr>,
                 \<lparr>ID = ''D'', Index = 3, Health = Healthy\<rparr>]\<rparr>"

definition exampleConfig :: "MigStrategy option \<Rightarrow> bool option \<Rightarrow> Config" where
  "exampleConfig strategy failFast =
     \<lparr>Flags = \<lparr>MigStrategy = strategy, FailOnInitError = failFast\<rparr>,
      Resources = \<lparr>GPUs = [], MIGs = []\<rparr>\<rparr>"

text \<open>A node where NVML is detected and cannot be initialized.\<close>

definition failingWorld :: "nat World" where
  "failingWorld =
     \<lparr>Init = ERROR 9, Shutdown = SUCCESS, ErrorString = (\<lambda>ret. ''Driver Not Loaded''),
      HasNVML = (True, []),
      buildDeviceMap = (\<lambda>cfg. Inr []), MigProfiles = [], WalkError = None\<rparr>"

text \<open>A node without the NVML library.\<close>

definition noNVMLWorld :: "nat World" where
  "noNVMLWorld =
     \<lparr>Init = ERROR 9, Shutdown = SUCCESS, ErrorString = (\<lambda>ret. ''Driver Not Loaded''),
      HasNVML = (False, ''could not load NVML library''),
      buildDeviceMap = (\<lambda>cfg. Inr []), MigProfiles = [], WalkError = None\<rparr>"

text \<open>A node where NVML starts, the device map cannot be built and the shutdown fails.\<close>

definition brokenMapWorld :: "nat World" where
  "brokenMapWorld =
     \<lparr>Init = SUCCESS, Shutdown = ERROR 1, ErrorString = (\<lambda>ret. ''Unknown Error''),
      HasNVML = (True, []),
      buildDeviceMap = (\<lambda>cfg. Inl (Err ''error getting device'')),
      MigProfiles = [], WalkError = None\<rparr>"

text \<open>A node with one GPU and a MIG resource name that no device matches.\<close>

definition twoPoolWorld :: "nat World" where
  "twoPoolWorld =
     \<lparr>Init = SUCCESS, Shutdown = SUCCESS, ErrorString = (\<lambda>ret. ''Unknown Error''),
      HasNVML = (True, []),
      buildDeviceMap = (\<lambda>cfg. Inr [(''nvidia.com/mig-1g.5gb'', []),
                                    (''nvidia.com/gpu'', [\<lparr>ID = ''GPU-0'', Index = 0, Health = Healthy\<rparr>])]),
      MigProfiles = [''1g.5gb''], WalkError = None\<rparr>"

section \<open>Properties of the allocation engine\<close>


lemma resolve_None_iff:
  "resolve pool xs = None \<longleftrightarrow> \<not> set xs \<subseteq> ID ` set pool"
proof (induction xs)
  case Nil
  then show ?case by simp
next
  case (Cons x xs)
  show ?case
  proof (cases "find (\<lambda>d. ID d = x) pool")
    case None
    then have "x \<notin> ID ` set pool"
      by (auto simp: find_None_iff)
    with None show ?thesis by simp
  next
    case (Some d)
    then have "x \<in> ID ` set pool"
      by (auto simp: find_Some_iff)
    with Some Cons show ?thesis
      by (auto split: option.splits)
  qed
qed

text \<open>Devices of equal index keep the order in which they are given.\<close>

lemma rank_stable: "filter (\<lambda>d. Index d = k) (rank ds) = filter (\<lambda>d. Index d = k) ds"
  by (simp add: rank_def sort_key_stable)



text \<open>The stable sort by index is a ranking, and the only one.\<close>

lemma ranking_rank: "ranking cands (rank cands)"
  by (simp add: ranking_def rank_def sort_key_stable)


text \<open>
  The tie-break is what leaves one ranking: two devices of equal index can be listed in
  ascending index in both orders, and only the order in which they are given is a ranking.
\<close>

lemma tie_break_needed:
  "mset [\<lparr>ID = ''Y'', Index = 0 :: nat, Health = Healthy\<rparr>, \<lparr>ID = ''X'', Index = 0, Health = Healthy\<rparr>] =
     mset [\<lparr>ID = ''X'', Index = 0, Health = Healthy\<rparr>, \<lparr>ID = ''Y'', Index = 0, Health = Healthy\<rparr>] \<and>
   sorted (map Index [\<lparr>ID = ''Y'', Index = 0 :: nat, Health = Healthy\<rparr>,
                      \<lparr>ID = ''X'', Index = 0, Health = Healthy\<rparr>]) \<and>
   \<not> ranking [\<lparr>ID = ''X'', Index = 0 :: nat, Health = Healthy\<rparr>, \<lparr>ID = ''Y'', Index = 0, Health = Healthy\<rparr>]
         [\<lparr>ID = ''Y'', Index = 0, Health = Healthy\<rparr>, \<lparr>ID = ''X'', Index = 0, Health = Healthy\<rparr>] \<and>
   ranking [\<lparr>ID = ''X'', Index = 0 :: nat, Health = Healthy\<rparr>, \<lparr>ID = ''Y'', Index = 0, Health = Healthy\<rparr>]
         [\<lparr>ID = ''X'', Index = 0, Health = Healthy\<rparr>, \<lparr>ID = ''Y'', Index = 0, Health = Healthy\<rparr>]"
  by (simp add: ranking_def)

text \<open>When the engine returns a list, and which list.\<close>

lemma getPreferredAllocation_cases:
  "getPreferredAllocation r available required sz = Inr ids \<longleftrightarrow>
     set required \<subseteq> set available \<and> int (length required) \<le> sz \<and> sz \<le> int (length available) \<and>
     (\<exists>ds. resolve (Devices r) available = Some ds \<and>
        ids = required @ map ID (take (nat sz - length required) (rank (remaining ds required))))"
  by (auto simp: getPreferredAllocation_def split: option.splits)

text \<open>When the engine fails, and with which error.\<close>

lemma getPreferredAllocation_error:
  "getPreferredAllocation r available required sz = Inl e \<longleftrightarrow>
     e = InvalidRequest \<and>
     (\<not> set required \<subseteq> set available \<or> sz < int (length required) \<or> int (length available) < sz \<or>
      \<not> set available \<subseteq> ID ` set (Devices r))"
  by (auto simp: getPreferredAllocation_def resolve_None_iff[symmetric] split: option.splits)

text \<open>
  The example of section 8 of the specification: from the pool A, B, C, D with C required
  and two devices asked for, the engine returns C and then A.
\<close>

lemma examplePool_allocation:
  "GetPreferredAllocation examplePool [''A'', ''B'', ''C'', ''D''] [''C''] 2 = Inr [''C'', ''A'']"
  by (simp add: GetPreferredAllocation_def getPreferredAllocation_def Devices_def rank_def examplePool_def)



text \<open>
  Claim C2. For every valid allocation request, every identifier of \<open>required\<close> is in
  the list that \<open>GetPreferredAllocation\<close> returns. The only valid request for which no
  list is returned is one whose \<open>available\<close> has a device unknown to the pool.
\<close>

theorem GetPreferredAllocation_required:
  assumes "set required \<subseteq> set available"
    and "int (length required) \<le> sz" and "sz \<le> int (length available)"
  shows "case GetPreferredAllocation r available required sz of
           Inr ids \<Rightarrow> set required \<subseteq> set ids
         | Inl e \<Rightarrow> \<not> set available \<subseteq> ID ` set (Devices r)"
proof (cases "GetPreferredAllocation r available required sz")
  case (Inl e)
  then have "getPreferredAllocation r available required sz = Inl e"
    by (simp add: GetPreferredAllocation_def)
  with assms have "\<not> set available \<subseteq> ID ` set (Devices r)"
    unfolding getPreferredAllocation_error by linarith
  with Inl show ?thesis by simp
next
  case (Inr ids)
  then obtain rest where "ids = required @ rest"
    by (auto simp: GetPreferredAllocation_def getPreferredAllocation_cases)
  with Inr show ?thesis by simp
qed

theorem GetPreferredAllocation_required_witness:
  "set [''C'', ''B''] \<subseteq> set [''D'', ''C'', ''B'', ''A''] \<and> int (length [''C'', ''B'']) \<le> 3 \<and>
   3 \<le> int (length [''D'', ''C'', ''B'', ''A'']) \<and>
   GetPreferredAllocation examplePool [''D'', ''C'', ''B'', ''A''] [''C'', ''B''] 3 = Inr [''C'', ''B'', ''A''] \<and>
   set [''C'', ''B''] \<subseteq> set [''C'', ''B'', ''A'']"
  using GetPreferredAllocation_required [of "[''C'', ''B'']" "[''D'', ''C'', ''B'', ''A'']" 3 examplePool]
  by (simp add: GetPreferredAllocation_def getPreferredAllocation_def Devices_def rank_def examplePool_def)

text \<open>
  Claim C3. When \<open>size\<close> is below \<open>len(required)\<close>, or above \<open>len(available)\<close>, or
  \<open>required\<close> is not a subset of \<open>available\<close>, \<open>GetPreferredAllocation\<close> returns the
  error \<open>InvalidRequest\<close> and no list.
\<close>

theorem GetPreferredAllocation_invalid:
  assumes "sz < int (length required) \<or> int (length available) < sz \<or> \<not> set required \<subseteq> set available"
  shows "GetPreferredAllocation r available required sz = Inl InvalidRequest"
  using assms by (auto simp: GetPreferredAllocation_def getPreferredAllocation_def)

theorem GetPreferredAllocation_invalid_witness:
  "1 < int (length [''A'', ''B'']) \<and>
   GetPreferredAllocation examplePool [''A'', ''B'', ''C''] [''A'', ''B''] 1 = Inl InvalidRequest \<and>
   int (length [''A'', ''B'']) < 3 \<and>
   GetPreferredAllocation examplePool [''A'', ''B''] [''A''] 3 = Inl InvalidRequest \<and>
   \<not> set [''C''] \<subseteq> set [''A'', ''B''] \<and>
   GetPreferredAllocation examplePool [''A'', ''B''] [''C''] 1 = Inl InvalidRequest"
  using GetPreferredAllocation_invalid [of 1 "[''A'', ''B'']" "[''A'', ''B'', ''C'']" examplePool]
    GetPreferredAllocation_invalid [of 3 "[''A'']" "[''A'', ''B'']" examplePool]
    GetPreferredAllocation_invalid [of 1 "[''C'']" "[''A'', ''B'']" examplePool]
  by simp

text \<open>The engine returns an outcome that the specification permits, and there is no other.\<close>

lemma allocates_GetPreferredAllocation:
  "allocates r available required sz (GetPreferredAllocation r available required sz)"
proof (cases "GetPreferredAllocation r available required sz")
  case (Inl e)
  then have "getPreferredAllocation r available required sz = Inl e"
    by (simp add: GetPreferredAllocation_def)
  then have "e = InvalidRequest" and
    "\<not> set required \<subseteq> set available \<or> sz < int (length required) \<or> int (length available) < sz \<or>
     \<not> set available \<subseteq> ID ` set (Devices r)"
    by (simp_all add: getPreferredAllocation_error)
  with Inl show ?thesis
    by (simp add: allocates.reject)
next
  case (Inr ids)
  then obtain ds where valid: "set required \<subseteq> set available" "int (length required) \<le> sz"
    "sz \<le> int (length available)" "resolve (Devices r) available = Some ds"
    and ids: "ids = required @ map ID (take (nat sz - length required) (rank (remaining ds required)))"
    by (auto simp: GetPreferredAllocation_def getPreferredAllocation_cases)
  from valid ranking_rank have "allocates r available required sz
      (Inr (required @ map ID (take (nat sz - length required) (rank (remaining ds required)))))"
    by (rule allocates.choose)
  with Inr ids show ?thesis by simp
qed


text \<open>
  The order in which the pool lists its devices does not matter either, as long as no two
  devices of the pool share an identifier.
\<close>

lemma find_unique_ID:
  "distinct (map ID pool) \<Longrightarrow> d \<in> set pool \<Longrightarrow> find (\<lambda>e. ID e = ID d) pool = Some d"
  by (induction pool) (auto simp: image_iff)

lemma find_pool_order:
  assumes "set pool' = set pool" and "distinct (map ID pool)" and "distinct (map ID pool')"
  shows "find (\<lambda>d. ID d = x) pool' = find (\<lambda>d. ID d = x) pool"
proof (cases "x \<in> ID ` set pool")
  case True
  then obtain d where "d \<in> set pool" and "ID d = x"
    by auto
  with assms show ?thesis
    using find_unique_ID [of pool d] find_unique_ID [of pool' d] by simp
next
  case False
  then have "find (\<lambda>d. ID d = x) pool = None"
    by (auto simp: find_None_iff)
  moreover from False assms(1) have "find (\<lambda>d. ID d = x) pool' = None"
    by (auto simp: find_None_iff)
  ultimately show ?thesis by simp
qed

lemma resolve_pool_order:
  assumes "set pool' = set pool" and "distinct (map ID pool)" and "distinct (map ID pool')"
  shows "resolve pool' xs = resolve pool xs"
  by (induction xs) (auto simp: find_pool_order [OF assms] split: option.splits)

lemma GetPreferredAllocation_pool_order:
  assumes "set (Devices r') = set (Devices r)"
    and "distinct (map ID (Devices r))" and "distinct (map ID (Devices r'))"
  shows "GetPreferredAllocation r' available required sz = GetPreferredAllocation r available required sz"
  using assms(1) resolve_pool_order [OF assms, of available]
  by (simp add: GetPreferredAllocation_def getPreferredAllocation_def)



text \<open>
  The rule of section 4.3 for a device that the pool does not have: the pool A, B, C, D
  knows no device E, and the request for E out of E fails.
\<close>

lemma examplePool_unknown_device:
  "GetPreferredAllocation examplePool [''E''] [''E''] 1 = Inl InvalidRequest"
  by (simp add: GetPreferredAllocation_def getPreferredAllocation_def Devices_def examplePool_def)

text \<open>
  Claim C8. For every \<open>available\<close> and \<open>required\<close> with \<open>required\<close> a subset of
  \<open>available\<close>, \<open>GetPreferredAllocation(available, required, len(required))\<close> returns
  exactly the list \<open>required\<close>, in the same order. No list is returned only where the
  validation of section 4.3 fails the request: \<open>available\<close> has a device unknown to the
  pool, or \<open>len(required)\<close>, the size asked for, is above \<open>len(available)\<close>.
\<close>

theorem GetPreferredAllocation_required_only:
  assumes "set required \<subseteq> set available"
  shows "case GetPreferredAllocation r available required (int (length required)) of
           Inr ids \<Rightarrow> ids = required
         | Inl e \<Rightarrow> \<not> set available \<subseteq> ID ` set (Devices r) \<or> length available < length required"
proof (cases "GetPreferredAllocation r available required (int (length required))")
  case (Inl e)
  then have "getPreferredAllocation r available required (int (length required)) = Inl e"
    by (simp add: GetPreferredAllocation_def)
  with assms have "\<not> set available \<subseteq> ID ` set (Devices r) \<or> length available < length required"
    unfolding getPreferredAllocation_error by auto
  with Inl show ?thesis by simp
next
  case (Inr ids)
  then have "ids = required"
    by (auto simp: GetPreferredAllocation_def getPreferredAllocation_cases)
  with Inr show ?thesis by simp
qed

theorem GetPreferredAllocation_required_only_witness:
  "set [''C'', ''A''] \<subseteq> set [''A'', ''B'', ''C''] \<and>
   GetPreferredAllocation examplePool [''A'', ''B'', ''C''] [''C'', ''A''] (int (length [''C'', ''A''])) =
     Inr [''C'', ''A'']"
  using GetPreferredAllocation_required_only [of "[''C'', ''A'']" "[''A'', ''B'', ''C'']" examplePool]
  by (simp add: GetPreferredAllocation_def getPreferredAllocation_def Devices_def rank_def examplePool_def)

section \<open>Properties of NewResourceManagers\<close>

text \<open>The loop keeps, in order, the entries of the device map that have a device.\<close>

lemma rangeDeviceMap_filter:
  "rangeDeviceMap cfg dm rms =
     rms @ map (\<lambda>(name, devs). \<lparr>config = cfg, resource = name, devices = devs\<rparr>)
             (filter (\<lambda>(name, devs). devs \<noteq> []) dm)"
  by (induction cfg dm rms rule: rangeDeviceMap.induct) (simp_all add: Devices_def)

text \<open>
  Claim C5. When \<open>nvml.Init()\<close> fails in \<open>NewResourceManagers\<close>, the call returns an
  error if and only if the flag \<open>FailOnInitError\<close> of the configuration is true; when the
  flag is false the call returns no manager (the nil slice) and no error.
\<close>

theorem NewResourceManagers_init_failure:
  assumes "Init w \<noteq> SUCCESS"
  shows "((\<exists>e. snd (NewResourceManagers w (Some c)) = Return (Inl e)) \<longleftrightarrow>
            FailOnInitError (Flags c) = Some True) \<and>
         (FailOnInitError (Flags c) = Some False \<longrightarrow>
            snd (NewResourceManagers w (Some c)) = Return (Inr []))"
  using assms by (auto simp: NewResourceManagers_def Let_def split: option.splits)

theorem NewResourceManagers_init_failure_witness:
  "Init failingWorld \<noteq> SUCCESS \<and>
   snd (NewResourceManagers failingWorld (Some (exampleConfig None (Some True)))) =
     Return (Inl (Err ''failed to initialize NVML: Driver Not Loaded'')) \<and>
   snd (NewResourceManagers failingWorld (Some (exampleConfig None (Some False)))) = Return (Inr [])"
  using NewResourceManagers_init_failure [of failingWorld "exampleConfig None (Some True)"]
    NewResourceManagers_init_failure [of failingWorld "exampleConfig None (Some False)"]
  by (simp add: NewResourceManagers_def failingWorld_def exampleConfig_def)

text \<open>
  Claim C6. Every manager in the list that a successful call of \<open>NewResourceManagers\<close>
  returns has a device: the managers are, in order, the entries of the device map whose
  device list is not empty, and a resource name with no device gets no manager.
\<close>

theorem NewResourceManagers_no_empty_pool:
  assumes "snd (NewResourceManagers w cfg) = Return (Inr rms)"
  shows "(\<forall>r \<in> set rms. Devices r \<noteq> []) \<and>
         (\<forall>deviceMap. Init w = SUCCESS \<and> buildDeviceMap w cfg = Inr deviceMap \<longrightarrow>
            map (\<lambda>r. (Resource r, Devices r)) rms = filter (\<lambda>(name, devs). devs \<noteq> []) deviceMap)"
proof (cases "Init w = SUCCESS")
  case False
  with assms have "rms = []"
    by (auto simp: NewResourceManagers_def Let_def split: option.splits if_splits)
  with False show ?thesis by simp
next
  case True
  with assms obtain dm where dm: "buildDeviceMap w cfg = Inr dm"
    and rms: "rms = rangeDeviceMap cfg dm []"
    by (auto simp: NewResourceManagers_def Let_def split: sum.splits)
  have "map (\<lambda>r. (Resource r, Devices r)) rms = filter (\<lambda>(name, devs). devs \<noteq> []) dm"
    unfolding rms rangeDeviceMap_filter
    by (induction dm) (auto simp: Resource_def Devices_def)
  moreover have "\<forall>r \<in> set rms. Devices r \<noteq> []"
    unfolding rms rangeDeviceMap_filter by (auto simp: Devices_def)
  ultimately show ?thesis
    using dm by simp
qed

theorem NewResourceManagers_no_empty_pool_witness:
  "snd (NewResourceManagers twoPoolWorld None) =
     Return (Inr [\<lparr>config = None, resource = ''nvidia.com/gpu'',
                   devices = [\<lparr>ID = ''GPU-0'', Index = 0, Health = Healthy\<rparr>]\<rparr>]) \<and>
   Devices \<lparr>config = None, resource = ''nvidia.com/gpu'',
            devices = [\<lparr>ID = ''GPU-0'', Index = 0 :: nat, Health = Healthy\<rparr>]\<rparr> \<noteq> [] \<and>
   buildDeviceMap twoPoolWorld None =
     Inr [(''nvidia.com/mig-1g.5gb'', []),
          (''nvidia.com/gpu'', [\<lparr>ID = ''GPU-0'', Index = 0, Health = Healthy\<rparr>])]"
  using NewResourceManagers_no_empty_pool [of twoPoolWorld None
      "[\<lparr>config = None, resource = ''nvidia.com/gpu'',
         devices = [\<lparr>ID = ''GPU-0'', Index = 0, Health = Healthy\<rparr>]\<rparr>]"]
  by (simp add: NewResourceManagers_def twoPoolWorld_def Devices_def)

text \<open>
  Claim C7. On every path of \<open>NewResourceManagers\<close> on which \<open>nvml.Init()\<close> succeeded,
  \<open>nvml.Shutdown()\<close> is called before the function returns, also when building the device
  map fails: the handle is not held at the return, the shutdown comes after the
  initialization and after the building of the device map, and the function returns (with
  an error when the device map could not be built).
\<close>

theorem NewResourceManagers_releases_handle:
  assumes "Init w = SUCCESS"
  shows "\<not> handleHeld (fst (NewResourceManagers w cfg)) False \<and>
         (\<exists>before ret after.
            fst (NewResourceManagers w cfg) = before @ NvmlShutdown ret # after \<and>
            NvmlInit SUCCESS \<in> set before \<and> CallBuildDeviceMap \<in> set before \<and>
            (\<forall>ret'. NvmlShutdown ret' \<notin> set before \<and> NvmlInit ret' \<notin> set after)) \<and>
         (\<exists>x. snd (NewResourceManagers w cfg) = Return x) \<and>
         (\<forall>err. buildDeviceMap w cfg = Inl err \<longrightarrow>
            (\<exists>e. snd (NewResourceManagers w cfg) = Return (Inl e)))"
proof -
  have tr: "fst (NewResourceManagers w cfg) = [NvmlInit SUCCESS, CallBuildDeviceMap] @ deferredShutdown w"
    using assms by (simp add: NewResourceManagers_def split: sum.splits)
  have held: "\<not> handleHeld (fst (NewResourceManagers w cfg)) False"
    unfolding tr by (simp add: deferredShutdown_def Let_def)
  have "fst (NewResourceManagers w cfg) =
          [NvmlInit SUCCESS, CallBuildDeviceMap] @ NvmlShutdown (Shutdown w) # tl (deferredShutdown w)"
    unfolding tr by (simp add: deferredShutdown_def Let_def)
  moreover have "\<forall>ret'. NvmlInit ret' \<notin> set (tl (deferredShutdown w))"
    by (simp add: deferredShutdown_def Let_def)
  ultimately have order: "\<exists>before ret after.
            fst (NewResourceManagers w cfg) = before @ NvmlShutdown ret # after \<and>
            NvmlInit SUCCESS \<in> set before \<and> CallBuildDeviceMap \<in> set before \<and>
            (\<forall>ret'. NvmlShutdown ret' \<notin> set before \<and> NvmlInit ret' \<notin> set after)"
    by (intro exI [of _ "[NvmlInit SUCCESS, CallBuildDeviceMap]"] exI [of _ "Shutdown w"]
        exI [of _ "tl (deferredShutdown w)"]) simp
  have ret: "\<exists>x. snd (NewResourceManagers w cfg) = Return x"
    using assms by (simp add: NewResourceManagers_def split: sum.splits)
  have err: "\<forall>err. buildDeviceMap w cfg = Inl err \<longrightarrow>
            (\<exists>e. snd (NewResourceManagers w cfg) = Return (Inl e))"
    using assms by (simp add: NewResourceManagers_def)
  from held order ret err show ?thesis by blast
qed

theorem NewResourceManagers_releases_handle_witness:
  "Init brokenMapWorld = SUCCESS \<and>
   NewResourceManagers brokenMapWorld None =
     ([NvmlInit SUCCESS, CallBuildDeviceMap, NvmlShutdown (ERROR 1),
       LogPrintf ''Error shutting down NVML: %v'' [ArgString ''Unknown Error'']],
      Return (Inl (Err ''error building device map: error getting device''))) \<and>
   \<not> handleHeld (fst (NewResourceManagers brokenMapWorld None)) False"
  using NewResourceManagers_releases_handle [of brokenMapWorld None]
  by (simp add: NewResourceManagers_def brokenMapWorld_def deferredShutdown_def)

section \<open>Properties of AddDefaultResourcesToConfig\<close>

text \<open>Walking the MIG profiles adds MIG rules only.\<close>

lemma walkProfiles_GPUs:
  "walkProfiles (\<lambda>p. AddMIGResource p (f p)) ps e rs = (rs', err) \<Longrightarrow> GPUs rs' = GPUs rs"
  by (induction ps arbitrary: rs) (auto simp: AddMIGResource_def)

text \<open>
  Claim C9. When the MIG strategy is mixed and \<open>nvinfo.HasNVML()\<close> does not detect NVML,
  \<open>AddDefaultResourcesToConfig\<close> returns nil after adding the rule for whole GPUs and no
  other rule, and does not call \<open>nvml.Init()\<close>, whatever the flag \<open>FailOnInitError\<close>. The
  flag decides only later, when NVML is detected and \<open>nvml.Init()\<close> fails: then an error is
  returned if and only if the flag is true.
\<close>

theorem AddDefaultResourcesToConfig_mixed_without_NVML:
  assumes "MigStrategy (Flags c) = Some MigStrategyMixed" and "\<not> fst (HasNVML w)"
  shows "snd (snd (AddDefaultResourcesToConfig w (Some c))) = Return None \<and>
         fst (snd (AddDefaultResourcesToConfig w (Some c))) =
           Some (c\<lparr>Resources := (Resources c)\<lparr>GPUs := GPUs (Resources c) @ [(''*'', ''gpu'')]\<rparr>\<rparr>) \<and>
         (\<forall>ret. NvmlInit ret \<notin> set (fst (AddDefaultResourcesToConfig w (Some c)))) \<and>
         (\<forall>w'. fst (HasNVML w') \<and> Init w' \<noteq> SUCCESS \<longrightarrow>
            ((\<exists>e. snd (snd (AddDefaultResourcesToConfig w' (Some c))) = Return (Some e)) \<longleftrightarrow>
             FailOnInitError (Flags c) = Some True))"
proof -
  obtain reason where h: "HasNVML w = (False, reason)"
    using assms(2) by (cases "HasNVML w") auto
  have absent: "AddDefaultResourcesToConfig w (Some c) =
     ([ProbeNVML,
       LogPrintf ''WARNING: mig-strategy=%q is only supported with NVML'' [ArgMigStrategy MigStrategyMixed],
       LogPrintf ''NVML not detected: %v'' [ArgString reason]],
      Some (c\<lparr>Resources := (Resources c)\<lparr>GPUs := GPUs (Resources c) @ [(''*'', ''gpu'')]\<rparr>\<rparr>),
      Return None)"
    using assms(1) h by (simp add: AddDefaultResourcesToConfig_def AddGPUResource_def)
  have later: "(\<exists>e. snd (snd (AddDefaultResourcesToConfig w' (Some c))) = Return (Some e)) \<longleftrightarrow>
             FailOnInitError (Flags c) = Some True"
    if probe: "fst (HasNVML w')" and init: "Init w' \<noteq> SUCCESS" for w' :: "'b World"
  proof -
    obtain reason' where "HasNVML w' = (True, reason')"
      using probe by (cases "HasNVML w'") auto
    with assms(1) init show ?thesis
      by (auto simp: AddDefaultResourcesToConfig_def AddGPUResource_def Let_def split: option.splits)
  qed
  from absent later show ?thesis by simp
qed

theorem AddDefaultResourcesToConfig_mixed_without_NVML_witness:
  "MigStrategy (Flags (exampleConfig (Some MigStrategyMixed) (Some True))) = Some MigStrategyMixed \<and>
   \<not> fst (HasNVML noNVMLWorld) \<and>
   AddDefaultResourcesToConfig noNVMLWorld (Some (exampleConfig (Some MigStrategyMixed) (Some True))) =
     ([ProbeNVML,
       LogPrintf ''WARNING: mig-strategy=%q is only supported with NVML'' [ArgMigStrategy MigStrategyMixed],
       LogPrintf ''NVML not detected: %v'' [ArgString ''could not load NVML library'']],
      Some \<lparr>Flags = \<lparr>MigStrategy = Some MigStrategyMixed, FailOnInitError = Some True\<rparr>,
            Resources = \<lparr>GPUs = [(''*'', ''gpu'')], MIGs = []\<rparr>\<rparr>,
      Return None) \<and>
   snd (snd (AddDefaultResourcesToConfig failingWorld (Some (exampleConfig (Some MigStrategyMixed) (Some True))))) =
     Return (Some (Err ''failed to initialize NVML: Driver Not Loaded''))"
  using AddDefaultResourcesToConfig_mixed_without_NVML
    [of "exampleConfig (Some MigStrategyMixed) (Some True)" noNVMLWorld]
  by (simp add: AddDefaultResourcesToConfig_def AddGPUResource_def noNVMLWorld_def failingWorld_def
      exampleConfig_def)

text \<open>
  Claim C10. \<open>AddDefaultResourcesToConfig\<close> adds the rule for whole GPUs, pattern \<open>*\<close>
  to resource name \<open>gpu\<close>, whatever the MIG strategy of the configuration (also when the
  pointer to the strategy is nil); under the strategy single it also adds the rule for MIG
  partitions with the same pattern \<open>*\<close> and the same resource name \<open>gpu\<close>, and returns
  nil.
\<close>

theorem AddDefaultResourcesToConfig_gpu_rule:
  "\<exists>c'. fst (snd (AddDefaultResourcesToConfig w (Some c))) = Some c' \<and>
     GPUs (Resources c') = GPUs (Resources c) @ [(''*'', ''gpu'')] \<and>
     (MigStrategy (Flags c) = Some MigStrategySingle \<longrightarrow>
        MIGs (Resources c') = MIGs (Resources c) @ [(''*'', ''gpu'')] \<and>
        snd (snd (AddDefaultResourcesToConfig w (Some c))) = Return None)"
proof (cases "MigStrategy (Flags c)")
  case None
  then show ?thesis
    by (simp add: AddDefaultResourcesToConfig_def AddGPUResource_def)
next
  case (Some s)
  show ?thesis
  proof (cases s)
    case MigStrategySingle
    with Some show ?thesis
      by (simp add: AddDefaultResourcesToConfig_def AddGPUResource_def AddMIGResource_def)
  next
    case MigStrategyMixed
    with Some show ?thesis
      by (cases "HasNVML w")
        (auto simp: AddDefaultResourcesToConfig_def AddGPUResource_def walkMigProfiles_def
          Let_def split: prod.splits dest: walkProfiles_GPUs)
  next
    case (MigStrategyOther v)
    with Some show ?thesis
      by (simp add: AddDefaultResourcesToConfig_def AddGPUResource_def)
  qed
qed

theorem AddDefaultResourcesToConfig_gpu_rule_witness:
  "MigStrategy (Flags (exampleConfig (Some MigStrategySingle) None)) = Some MigStrategySingle \<and>
   AddDefaultResourcesToConfig noNVMLWorld (Some (exampleConfig (Some MigStrategySingle) None)) =
     ([],
      Some \<lparr>Flags = \<lparr>MigStrategy = Some MigStrategySingle, FailOnInitError = None\<rparr>,
            Resources = \<lparr>GPUs = [(''*'', ''gpu'')], MIGs = [(''*'', ''gpu'')]\<rparr>\<rparr>,
      Return None)"
  using AddDefaultResourcesToConfig_gpu_rule [of noNVMLWorld "exampleConfig (Some MigStrategySingle) None"]
  by (simp add: AddDefaultResourcesToConfig_def AddGPUResource_def AddMIGResource_def exampleConfig_def)

end
